theory Spec2Isabelle
  imports Main "HOL-Library.Sublist"
begin

section \<open>The RSS feed endpoint \<^verbatim>\<open>src/pages/feed/blog.xml.js\<close>\<close>

text \<open>
  The endpoint is one module of sixteen lines:
  \<^verbatim>\<open>
  import rss from "@astrojs/rss";

  const postImportResult = import.meta.glob("../blog/*.md", { eager: true });
  const posts = Object.values(postImportResult);

  export const get = () =>
    rss({
      title: "Interactions.Rest Blog",
      description: "A blog about Workers and web development",
      site: import.meta.env.SITE,
      items: posts.map((post) => ({
        link: post.url,
        title: post.frontmatter.title,
        pubDate: post.frontmatter.publishedAt,
      })),
    });
  \<close>
  Two statements run once, when the module is evaluated; \<open>get\<close> is a closure over
  their result. The serializer \<open>rss\<close> and the loader behind \<open>import.meta.glob\<close> belong
  to the framework, not to this repository: the serializer is a parameter of the model,
  and the loader's result (the Markdown modules it found, keyed by path) is its input.
\<close>

subsection \<open>JavaScript values\<close>

text \<open>
  The values a YAML front-matter block or the build configuration can hold. The endpoint
  copies them and never looks inside. A date such as \<open>publishedAt: 2022-11-18\<close> is read
  by the YAML parser as a date, kept here as milliseconds since the epoch; a number is
  kept by its integer value.
\<close>

datatype jsval =
    JUndefined
  | JNull
  | JBool bool
  | JNum int
  | JStr string
  | JDate int
  | JArr "jsval list"
  | JObj "(string \<times> jsval) list"

type_synonym js_object = "(string \<times> jsval) list"

text \<open>
  Reading a property \<open>obj.k\<close> of an object: the value stored under the key, and
  \<open>undefined\<close> (no exception) when the object has no such key.
\<close>

definition js_get :: "js_object \<Rightarrow> string \<Rightarrow> jsval" where
  "js_get obj k = (case map_of obj k of None \<Rightarrow> JUndefined | Some v \<Rightarrow> v)"

text \<open>
  \<open>Object.values\<close> lists the values of an object's own string-keyed properties in the
  order the properties were created. (Keys that are canonical array indices would come
  first; a key produced by the pattern \<open>../blog/*.md\<close> starts with a dot and is never
  one.)
\<close>

definition Object_values :: "(string \<times> 'a) list \<Rightarrow> 'a list" where
  "Object_values obj = map snd obj"

subsection \<open>The data model\<close>

text \<open>
  What the loader hands over for one Markdown file: the front-matter as an object (the
  empty object for a file without a front-matter block), the path of the file, the
  route of the rendered page (\<open>undefined\<close> for a file outside the pages directory) and
  the Markdown body.
\<close>

record markdown_instance =
  frontmatter :: js_object
  file_path :: string
  url :: jsval
  rawContent :: string

text \<open>The object literal built for each post, and the one passed to the serializer.\<close>

record rss_feed_item =
  link :: jsval
  title :: jsval
  pubDate :: jsval

record rss_options =
  title :: jsval
  description :: jsval
  site :: jsval
  items :: "rss_feed_item list"

record import_meta_env =
  SITE :: jsval

text \<open>The module's bindings: the build configuration and the two module-level constants.\<close>

record feed_module =
  env :: import_meta_env
  postImportResult :: "(string \<times> markdown_instance) list"
  posts :: "markdown_instance list"

subsection \<open>The module\<close>

text \<open>
  Lines 3 and 4, run when the module is evaluated. \<open>globbed\<close> is what
  \<open>import.meta.glob("../blog/*.md", { eager: true })\<close> returns: the loaded modules
  keyed by path, in the loader's enumeration order.
\<close>

definition module_init ::
  "import_meta_env \<Rightarrow> (string \<times> markdown_instance) list \<Rightarrow> feed_module" where
  "module_init e globbed =
     (let postImportResult = globbed;
          posts = Object_values postImportResult
      in \<lparr>env = e, postImportResult = postImportResult, posts = posts\<rparr>)"

text \<open>Lines 7 to 15: the argument of \<open>rss\<close>.\<close>

definition get_options :: "feed_module \<Rightarrow> rss_options" where
  "get_options m =
     \<lparr>rss_options.title = JStr ''Interactions.Rest Blog'',
      description = JStr ''A blog about Workers and web development'',
      site = SITE (env m),
      items = map (\<lambda>post.
                \<lparr>link = url post,
                 rss_feed_item.title = js_get (frontmatter post) ''title'',
                 pubDate = js_get (frontmatter post) ''publishedAt''\<rparr>)
              (posts m)\<rparr>"

text \<open>
  Lines 6 to 16: \<open>get\<close> hands the options to the serializer and returns what the
  serializer returns. The module's bindings are threaded through, so that what an
  invocation leaves behind is part of the result.
\<close>

definition get :: "(rss_options \<Rightarrow> 'r) \<Rightarrow> feed_module \<Rightarrow> 'r \<times> feed_module" where
  "get rss m = (rss (get_options m), m)"

subsection \<open>The module in its environment\<close>

text \<open>
  The content directory can change while the module stays loaded. A deployment pairs
  the files as they are now with the module as it was evaluated.
\<close>

record deployment =
  content_store :: "(string \<times> markdown_instance) list"
  loaded :: feed_module

definition deploy ::
  "import_meta_env \<Rightarrow> (string \<times> markdown_instance) list \<Rightarrow> deployment" where
  "deploy e store = \<lparr>content_store = store, loaded = module_init e store\<rparr>"

definition edit_store ::
  "(string \<times> markdown_instance) list \<Rightarrow> deployment \<Rightarrow> deployment" where
  "edit_store store' d = d\<lparr>content_store := store'\<rparr>"

definition request :: "(rss_options \<Rightarrow> 'r) \<Rightarrow> deployment \<Rightarrow> 'r \<times> deployment" where
  "request rss d = (case get rss (loaded d) of (r, m') \<Rightarrow> (r, d\<lparr>loaded := m'\<rparr>))"

section \<open>The same lines on a heap\<close>

text \<open>
  The model above reads the module by the values it handles. Two things it cannot say:
  that a property read may throw (\<open>x.title\<close> for an \<open>x\<close> that is \<open>undefined\<close> or
  \<open>null\<close> is a \<open>TypeError\<close>), and that objects are shared (the posts are objects that
  other code holds as well, and an item's \<open>pubDate\<close> is the very date object of the
  post's front-matter). For these the same lines are modelled once more, on an explicit
  heap of objects. The refinement lemma \<open>get_options_h_repr\<close> below connects the two
  models.
\<close>

subsection \<open>Heap values\<close>

type_synonym addr = nat

datatype hval = HUndefined | HNull | HBool bool | HNum int | HStr string | HRef addr

datatype hobj = HObject "(string \<times> hval) list" | HArray "hval list" | HDate int

text \<open>
  The heap is the list of the objects allocated so far; an address is a position in it.
  Allocation appends.
\<close>

type_synonym heap = "hobj list"

datatype js_error = TypeError

definition heap_alloc :: "hobj \<Rightarrow> heap \<Rightarrow> hval \<times> heap" where
  "heap_alloc ob h = (HRef (length h), h @ [ob])"

definition obj_prop :: "(string \<times> hval) list \<Rightarrow> string \<Rightarrow> hval" where
  "obj_prop ps k = (case map_of ps k of None \<Rightarrow> HUndefined | Some x \<Rightarrow> x)"

text \<open>
  The property read \<open>v.k\<close>, for the keys the module reads (\<open>url\<close>, \<open>frontmatter\<close>,
  \<open>title\<close>, \<open>publishedAt\<close>): a \<open>TypeError\<close> on \<open>undefined\<close> and \<open>null\<close>, the stored
  value on an object that has the key, and \<open>undefined\<close> otherwise (an object without
  the key, an array, a date, a string, a number, a boolean). A reference always points
  into the heap; the model reads \<open>undefined\<close> through one that does not.
\<close>

definition heap_get :: "heap \<Rightarrow> hval \<Rightarrow> string \<Rightarrow> js_error + hval" where
  "heap_get h v k =
     (case v of
        HUndefined \<Rightarrow> Inl TypeError
      | HNull \<Rightarrow> Inl TypeError
      | HRef a \<Rightarrow>
          (if a < length h
           then (case h ! a of
                   HObject ps \<Rightarrow> Inr (obj_prop ps k)
                 | _ \<Rightarrow> Inr HUndefined)
           else Inr HUndefined)
      | _ \<Rightarrow> Inr HUndefined)"

subsection \<open>The module\<close>

text \<open>
  Lines 11 to 15, the function passed to \<open>map\<close>: four property reads in the order of
  the source (\<open>post.frontmatter\<close> is read twice), then the object literal. An exception
  leaves the heap as it is.
\<close>

definition item_callback :: "hval \<Rightarrow> heap \<Rightarrow> (js_error + hval) \<times> heap" where
  "item_callback post h =
     (case heap_get h post ''url'' of
        Inl e \<Rightarrow> (Inl e, h)
      | Inr l \<Rightarrow>
     (case heap_get h post ''frontmatter'' of
        Inl e \<Rightarrow> (Inl e, h)
      | Inr f \<Rightarrow>
     (case heap_get h f ''title'' of
        Inl e \<Rightarrow> (Inl e, h)
      | Inr t \<Rightarrow>
     (case heap_get h post ''frontmatter'' of
        Inl e \<Rightarrow> (Inl e, h)
      | Inr f' \<Rightarrow>
     (case heap_get h f' ''publishedAt'' of
        Inl e \<Rightarrow> (Inl e, h)
      | Inr d \<Rightarrow>
     (case heap_alloc (HObject [(''link'', l), (''title'', t), (''pubDate'', d)]) h of
        (r, h') \<Rightarrow> (Inr r, h')))))))"

text \<open>
  \<open>Array.prototype.map\<close>: the callback runs on the elements from left to right, each
  run on the heap the one before left; the first exception ends the loop. The results
  go into a new array.
\<close>

fun map_loop ::
  "(hval \<Rightarrow> heap \<Rightarrow> (js_error + hval) \<times> heap) \<Rightarrow> hval list \<Rightarrow> heap
     \<Rightarrow> (js_error + hval list) \<times> heap" where
  "map_loop cb [] h = (Inr [], h)"
| "map_loop cb (v # vs) h =
     (case cb v h of
        (Inl e, h1) \<Rightarrow> (Inl e, h1)
      | (Inr r, h1) \<Rightarrow>
          (case map_loop cb vs h1 of
             (Inl e, h2) \<Rightarrow> (Inl e, h2)
           | (Inr rs, h2) \<Rightarrow> (Inr (r # rs), h2)))"

text \<open>\<open>arr.map(cb)\<close> is a \<open>TypeError\<close> when \<open>arr\<close> is not an array.\<close>

definition Array_map ::
  "(hval \<Rightarrow> heap \<Rightarrow> (js_error + hval) \<times> heap) \<Rightarrow> hval \<Rightarrow> heap
     \<Rightarrow> (js_error + hval) \<times> heap" where
  "Array_map cb arr h =
     (case arr of
        HRef a \<Rightarrow>
          (if a < length h
           then (case h ! a of
                   HArray vs \<Rightarrow>
                     (case map_loop cb vs h of
                        (Inl e, h1) \<Rightarrow> (Inl e, h1)
                      | (Inr rs, h1) \<Rightarrow>
                          (case heap_alloc (HArray rs) h1 of (r, h2) \<Rightarrow> (Inr r, h2)))
                 | _ \<Rightarrow> (Inl TypeError, h))
           else (Inl TypeError, h))
      | _ \<Rightarrow> (Inl TypeError, h))"

text \<open>
  The two bindings \<open>get\<close> reads: the configured \<open>SITE\<close> (a string, or \<open>undefined\<close>)
  and the module-level constant \<open>posts\<close> (a reference to the array that
  \<open>Object.values\<close> made).
\<close>

record heap_module =
  SITE_h :: hval
  posts_h :: hval

text \<open>Lines 7 to 15: the argument of \<open>rss\<close>, built on the heap.\<close>

definition get_options_h :: "heap_module \<Rightarrow> heap \<Rightarrow> (js_error + hval) \<times> heap" where
  "get_options_h b h =
     (case Array_map item_callback (posts_h b) h of
        (Inl e, h1) \<Rightarrow> (Inl e, h1)
      | (Inr its, h1) \<Rightarrow>
          (case heap_alloc
                  (HObject
                     [(''title'', HStr ''Interactions.Rest Blog''),
                      (''description'', HStr ''A blog about Workers and web development''),
                      (''site'', SITE_h b),
                      (''items'', its)]) h1 of
             (r, h2) \<Rightarrow> (Inr r, h2)))"

text \<open>
  Lines 6 to 16. The serializer gets the reference to the options and the heap; what
  it returns, or throws, is what \<open>get\<close> returns or throws.
\<close>

definition get_h ::
  "(hval \<Rightarrow> heap \<Rightarrow> (js_error + 'r) \<times> heap) \<Rightarrow> heap_module \<Rightarrow> heap
     \<Rightarrow> (js_error + 'r) \<times> heap" where
  "get_h rss b h =
     (case get_options_h b h of
        (Inl e, h1) \<Rightarrow> (Inl e, h1)
      | (Inr opts, h1) \<Rightarrow> rss opts h1)"

subsection \<open>Heap values as values\<close>

text \<open>
  \<open>repr h j v\<close>: on the heap \<open>h\<close>, the heap value \<open>v\<close> is the value \<open>j\<close>. A primitive is
  itself; a reference is the date, the array or the object found at its address, read
  through to the leaves.
\<close>

fun repr :: "heap \<Rightarrow> jsval \<Rightarrow> hval \<Rightarrow> bool" where
  "repr h JUndefined v = (v = HUndefined)"
| "repr h JNull v = (v = HNull)"
| "repr h (JBool b) v = (v = HBool b)"
| "repr h (JNum n) v = (v = HNum n)"
| "repr h (JStr s) v = (v = HStr s)"
| "repr h (JDate n) v = (case v of HRef a \<Rightarrow> a < length h \<and> h ! a = HDate n | _ \<Rightarrow> False)"
| "repr h (JArr js) v =
     (case v of
        HRef a \<Rightarrow> a < length h \<and>
          (case h ! a of HArray vs \<Rightarrow> list_all2 (repr h) js vs | _ \<Rightarrow> False)
      | _ \<Rightarrow> False)"
| "repr h (JObj ps) v =
     (case v of
        HRef a \<Rightarrow> a < length h \<and>
          (case h ! a of
             HObject qs \<Rightarrow> list_all2 (\<lambda>(k, j) (k', w). k = k' \<and> repr h j w) ps qs
           | _ \<Rightarrow> False)
      | _ \<Rightarrow> False)"

text \<open>The records of the first model as JavaScript objects.\<close>

definition item_val :: "rss_feed_item \<Rightarrow> jsval" where
  "item_val it =
     JObj [(''link'', link it), (''title'', rss_feed_item.title it), (''pubDate'', pubDate it)]"

definition options_val :: "rss_options \<Rightarrow> jsval" where
  "options_val opts =
     JObj [(''title'', rss_options.title opts),
           (''description'', description opts),
           (''site'', site opts),
           (''items'', JArr (map item_val (items opts)))]"

text \<open>
  A Markdown module on the heap: an object whose \<open>url\<close> and \<open>frontmatter\<close> are those of
  the post (whatever else the object holds).
\<close>

definition repr_post :: "heap \<Rightarrow> markdown_instance \<Rightarrow> hval \<Rightarrow> bool" where
  "repr_post h p v =
     (case v of
        HRef a \<Rightarrow> a < length h \<and>
          (case h ! a of
             HObject ps \<Rightarrow>
               repr h (url p) (obj_prop ps ''url'')
               \<and> repr h (JObj (frontmatter p)) (obj_prop ps ''frontmatter'')
           | _ \<Rightarrow> False)
      | _ \<Rightarrow> False)"

definition repr_module :: "heap \<Rightarrow> feed_module \<Rightarrow> heap_module \<Rightarrow> bool" where
  "repr_module h m b =
     (repr h (SITE (env m)) (SITE_h b)
      \<and> (case posts_h b of
           HRef a \<Rightarrow> a < length h \<and>
             (case h ! a of HArray vs \<Rightarrow> list_all2 (repr_post h) (posts m) vs | _ \<Rightarrow> False)
         | _ \<Rightarrow> False))"

section \<open>Concrete data\<close>

text \<open>
  The two posts of the repository (bodies cut to their first line), in the order of
  their file names, and a build configuration.
\<close>

definition bootstrapping_d1 :: markdown_instance where
  "bootstrapping_d1 =
     \<lparr>frontmatter =
        [(''layout'', JStr ''../../layouts/Post.astro''),
         (''title'', JStr ''Bootstrapping your D1 Database With D1-ORM''),
         (''image'', JStr ''/images/bootstrap-d1/icon''),
         (''publishedAt'', JDate 1668729600000),
         (''category'', JStr ''Cloudflare Workers, D1, SQL'')],
      file_path = ''src/pages/blog/bootstrapping-d1.md'',
      url = JStr ''/blog/bootstrapping-d1'',
      rawContent = ''### What is D1?''\<rparr>"

definition esbuild_on_the_edge :: markdown_instance where
  "esbuild_on_the_edge =
     \<lparr>frontmatter =
        [(''layout'', JStr ''../../layouts/Post.astro''),
         (''title'', JStr ''Running Esbuild on the Edge''),
         (''image'', JStr ''/images/esbuild-edge/icon''),
         (''publishedAt'', JDate 1668643200000),
         (''category'', JStr ''Cloudflare Workers, WebAssembly'')],
      file_path = ''src/pages/blog/esbuild-on-the-edge.md'',
      url = JStr ''/blog/esbuild-on-the-edge'',
      rawContent = ''### What is Esbuild?''\<rparr>"

definition blog_store :: "(string \<times> markdown_instance) list" where
  "blog_store =
     [(''../blog/bootstrapping-d1.md'', bootstrapping_d1),
      (''../blog/esbuild-on-the-edge.md'', esbuild_on_the_edge)]"

definition blog_env :: import_meta_env where
  "blog_env = \<lparr>SITE = JStr ''https://blog.interactions.rest''\<rparr>"

text \<open>The same two posts with other layout, image, category and body.\<close>

definition blog_store_restyled :: "(string \<times> markdown_instance) list" where
  "blog_store_restyled =
     [(''../blog/bootstrapping-d1.md'',
       \<lparr>frontmatter =
          [(''title'', JStr ''Bootstrapping your D1 Database With D1-ORM''),
           (''layout'', JStr ''../../layouts/Wide.astro''),
           (''publishedAt'', JDate 1668729600000),
           (''category'', JStr ''SQL'')],
        file_path = ''src/pages/blog/bootstrapping-d1.md'',
        url = JStr ''/blog/bootstrapping-d1'',
        rawContent = []\<rparr>),
      (''../blog/esbuild-on-the-edge.md'',
       \<lparr>frontmatter =
          [(''publishedAt'', JDate 1668643200000),
           (''image'', JNull),
           (''title'', JStr ''Running Esbuild on the Edge'')],
        file_path = ''src/pages/blog/esbuild-on-the-edge.md'',
        url = JStr ''/blog/esbuild-on-the-edge'',
        rawContent = ''Esbuild is a JavaScript bundler and minifier.''\<rparr>)]"

text \<open>A file whose front-matter has neither title nor date.\<close>

definition draft_post :: markdown_instance where
  "draft_post =
     \<lparr>frontmatter = [(''layout'', JStr ''../../layouts/Post.astro'')],
      file_path = ''src/pages/blog/draft.md'',
      url = JStr ''/blog/draft'',
      rawContent = ''to do''\<rparr>"


text \<open>The two posts and the draft.\<close>

definition blog_store_with_draft :: "(string \<times> markdown_instance) list" where
  "blog_store_with_draft = blog_store @ [(''../blog/draft.md'', draft_post)]"

text \<open>
  The same three files as the loader leaves them on the heap: for each the date (if
  any), the front-matter object and the module object; then the loader's result and
  the \<open>posts\<close> array.
\<close>

definition blog_heap :: heap where
  "blog_heap =
     [HDate 1668729600000,
      HObject [(''layout'', HStr ''../../layouts/Post.astro''),
               (''title'', HStr ''Bootstrapping your D1 Database With D1-ORM''),
               (''image'', HStr ''/images/bootstrap-d1/icon''),
               (''publishedAt'', HRef 0),
               (''category'', HStr ''Cloudflare Workers, D1, SQL'')],
      HObject [(''frontmatter'', HRef 1),
               (''file'', HStr ''src/pages/blog/bootstrapping-d1.md''),
               (''url'', HStr ''/blog/bootstrapping-d1'')],
      HDate 1668643200000,
      HObject [(''layout'', HStr ''../../layouts/Post.astro''),
               (''title'', HStr ''Running Esbuild on the Edge''),
               (''image'', HStr ''/images/esbuild-edge/icon''),
               (''publishedAt'', HRef 3),
               (''category'', HStr ''Cloudflare Workers, WebAssembly'')],
      HObject [(''frontmatter'', HRef 4),
               (''file'', HStr ''src/pages/blog/esbuild-on-the-edge.md''),
               (''url'', HStr ''/blog/esbuild-on-the-edge'')],
      HObject [(''layout'', HStr ''../../layouts/Post.astro'')],
      HObject [(''frontmatter'', HRef 6),
               (''file'', HStr ''src/pages/blog/draft.md''),
               (''url'', HStr ''/blog/draft'')],
      HObject [(''../blog/bootstrapping-d1.md'', HRef 2),
               (''../blog/esbuild-on-the-edge.md'', HRef 5),
               (''../blog/draft.md'', HRef 7)],
      HArray [HRef 2, HRef 5, HRef 7]]"

definition blog_heap_module :: heap_module where
  "blog_heap_module = \<lparr>SITE_h = HStr ''https://blog.interactions.rest'', posts_h = HRef 9\<rparr>"

text \<open>An empty content directory: the loader's result has no key, \<open>posts\<close> no element.\<close>

definition empty_heap :: heap where
  "empty_heap = [HObject [], HArray []]"

definition empty_heap_module :: heap_module where
  "empty_heap_module = \<lparr>SITE_h = HStr ''https://blog.interactions.rest'', posts_h = HRef 1\<rparr>"

text \<open>A module object without \<open>frontmatter\<close>, which the Markdown loader never produces.\<close>

definition broken_heap :: heap where
  "broken_heap = [HObject [(''url'', HStr ''/blog/broken'')], HArray [HRef 0]]"

text \<open>A serializer that hands back the reference it was given.\<close>

definition rss_echo :: "hval \<Rightarrow> heap \<Rightarrow> (js_error + hval) \<times> heap" where
  "rss_echo opts h = (Inr opts, h)"

section \<open>Properties\<close>

subsection \<open>The value model\<close>

lemma posts_module_init: "posts (module_init e store) = map snd store"
  by (simp add: module_init_def Object_values_def)

lemma env_module_init: "env (module_init e store) = e"
  by (simp add: module_init_def)

lemma length_items: "length (items (get_options m)) = length (posts m)"
  by (simp add: get_options_def)

lemma nth_items:
  assumes "i < length (posts m)"
  shows "items (get_options m) ! i =
           \<lparr>link = url (posts m ! i),
            rss_feed_item.title = js_get (frontmatter (posts m ! i)) ''title'',
            pubDate = js_get (frontmatter (posts m ! i)) ''publishedAt''\<rparr>"
  using assms by (simp add: get_options_def)

lemma get_result: "fst (get rss m) = rss (get_options m)"
  by (simp add: get_def)

lemma get_state: "snd (get rss m) = m"
  by (simp add: get_def)

lemma request_result: "fst (request rss d) = rss (get_options (loaded d))"
  by (simp add: request_def get_def)

lemma request_state: "snd (request rss d) = d"
  by (simp add: request_def get_def)

lemma items_cong:
  assumes "list_all2 (\<lambda>p q. url p = url q
              \<and> js_get (frontmatter p) ''title'' = js_get (frontmatter q) ''title''
              \<and> js_get (frontmatter p) ''publishedAt'' = js_get (frontmatter q) ''publishedAt'')
            ps qs"
  shows "items (get_options \<lparr>env = e, postImportResult = a, posts = ps\<rparr>)
       = items (get_options \<lparr>env = e, postImportResult = b, posts = qs\<rparr>)"
  using assms by (induction ps qs rule: list_all2_induct) (simp_all add: get_options_def)

subsection \<open>The heap only grows\<close>

text \<open>
  Nothing in \<open>get\<close> writes to an object that exists: each step leaves the heap it
  started from as an initial segment of the heap it ends with, also when it throws.
\<close>

lemma item_callback_prefix: "prefix h (snd (item_callback v h))"
  by (simp add: item_callback_def heap_alloc_def split: sum.splits)

lemma map_loop_prefix:
  assumes "\<And>v h. prefix h (snd (cb v h))"
  shows "prefix h (snd (map_loop cb vs h))"
proof (induction vs arbitrary: h)
  case Nil
  show ?case by simp
next
  case (Cons v vs)
  obtain x h1 where c: "cb v h = (x, h1)" by (cases "cb v h")
  with assms [of h v] have p1: "prefix h h1" by simp
  show ?case
  proof (cases x)
    case (Inl e)
    with c p1 show ?thesis by simp
  next
    case (Inr r)
    obtain y h2 where m: "map_loop cb vs h1 = (y, h2)" by (cases "map_loop cb vs h1")
    with Cons.IH [of h1] have "prefix h1 h2" by simp
    with p1 have "prefix h h2" by (rule prefix_order.trans)
    with c Inr m show ?thesis by (cases y) simp_all
  qed
qed

lemma Array_map_prefix:
  assumes "\<And>v h. prefix h (snd (cb v h))"
  shows "prefix h (snd (Array_map cb arr h))"
proof -
  have "prefix h (snd (case map_loop cb vs h of
                        (Inl e, h1) \<Rightarrow> (Inl e, h1)
                      | (Inr rs, h1) \<Rightarrow>
                          (case heap_alloc (HArray rs) h1 of (r, h2) \<Rightarrow> (Inr r, h2))))" for vs
    using map_loop_prefix [of cb h vs, OF assms]
    by (auto simp: heap_alloc_def split: prod.splits sum.splits intro: prefix_order.trans)
  then show ?thesis
    by (simp add: Array_map_def split: hval.splits hobj.splits)
qed

lemma get_options_h_prefix: "prefix h (snd (get_options_h b h))"
  using Array_map_prefix [of item_callback h "posts_h b", OF item_callback_prefix]
  by (auto simp: get_options_h_def heap_alloc_def split: prod.splits sum.splits
      intro: prefix_order.trans)


lemma get_options_h_fresh:
  assumes "get_options_h b h = (Inr r, h')"
  shows "\<exists>a. r = HRef a \<and> length h \<le> a \<and> a < length h'"
proof -
  obtain x h1 where am: "Array_map item_callback (posts_h b) h = (x, h1)"
    by (cases "Array_map item_callback (posts_h b) h")
  from Array_map_prefix [of item_callback h "posts_h b", OF item_callback_prefix] am
  have "prefix h h1"
    by simp
  then have le: "length h \<le> length h1"
    by (rule prefix_length_le)
  show ?thesis
  proof (cases x)
    case (Inl e)
    with am assms show ?thesis
      by (simp add: get_options_h_def)
  next
    case (Inr its)
    with am assms have "r = HRef (length h1)" and "length h' = Suc (length h1)"
      by (auto simp: get_options_h_def heap_alloc_def)
    with le show ?thesis
      by simp
  qed
qed

lemma get_h_prefix:
  assumes "\<And>opts h1. prefix h1 (snd (rss opts h1))"
  shows "prefix h (snd (get_h rss b h))"
proof -
  obtain x h1 where g: "get_options_h b h = (x, h1)"
    by (cases "get_options_h b h")
  with get_options_h_prefix [of h b] have p1: "prefix h h1"
    by simp
  show ?thesis
  proof (cases x)
    case (Inl e)
    with g p1 show ?thesis
      by (simp add: get_h_def)
  next
    case (Inr opts)
    from p1 assms [of h1 opts] have "prefix h (snd (rss opts h1))"
      by (rule prefix_order.trans)
    with g Inr show ?thesis
      by (simp add: get_h_def)
  qed
qed

subsection \<open>The heap run computes the value model\<close>

text \<open>
  What a heap value is stays what it is when the heap grows. On a heap that holds the
  module's posts as the Markdown loader makes them, \<open>get_options_h\<close> does not throw, and
  the object it returns is \<open>get_options\<close> of the value model.
\<close>

lemma prefix_nth: "prefix h h' \<Longrightarrow> a < length h \<Longrightarrow> h' ! a = h ! a"
  by (auto simp: prefix_def nth_append)

lemma prefix_length: "prefix h h' \<Longrightarrow> a < length h \<Longrightarrow> a < length h'"
  by (auto simp: prefix_def)

lemma repr_prefix: "prefix h h' \<Longrightarrow> repr h j v \<Longrightarrow> repr h' j v"
proof (induction h j v rule: repr.induct)
  case (6 h n v)
  then show ?case
    by (auto simp: prefix_nth prefix_length split: hval.splits)
next
  case (7 h js v)
  from "7.prems"(2) obtain a vs where v: "v = HRef a" and a: "a < length h"
    and ha: "h ! a = HArray vs" and all: "list_all2 (repr h) js vs"
    by (auto split: hval.splits hobj.splits)
  from all have "list_all2 (repr h') js vs"
  proof (rule list.rel_mono_strong)
    fix z y
    assume "z \<in> set js" and "y \<in> set vs" and "repr h z y"
    with "7.IH" [OF v ha] "7.prems"(1) show "repr h' z y"
      by blast
  qed
  with v a ha "7.prems"(1) show ?case
    by (simp add: prefix_nth prefix_length)
next
  case (8 h ps v)
  from "8.prems"(2) obtain a qs where v: "v = HRef a" and a: "a < length h"
    and ha: "h ! a = HObject qs"
    and all: "list_all2 (\<lambda>(k, j) (k', w). k = k' \<and> repr h j w) ps qs"
    by (auto split: hval.splits hobj.splits)
  from all have "list_all2 (\<lambda>(k, j) (k', w). k = k' \<and> repr h' j w) ps qs"
  proof (rule list.rel_mono_strong)
    fix z y
    assume z: "z \<in> set ps" and y: "y \<in> set qs"
      and r: "(case z of (k, j) \<Rightarrow> \<lambda>(k', w). k = k' \<and> repr h j w) y"
    obtain k j where zk: "z = (k, j)" by (cases z)
    obtain k' w where yk: "y = (k', w)" by (cases y)
    from r zk yk have "k = k'" and "repr h j w" by simp_all
    with "8.IH" [OF v ha z y zk [symmetric]] "8.prems"(1) have "repr h' j w"
      by blast
    with \<open>k = k'\<close> zk yk show "(case z of (k, j) \<Rightarrow> \<lambda>(k', w). k = k' \<and> repr h' j w) y"
      by simp
  qed
  with v a ha "8.prems"(1) show ?case
    by (simp add: prefix_nth prefix_length)
qed simp_all


lemma repr_props:
  "list_all2 (\<lambda>(k, j) (k', w). k = k' \<and> repr h j w) ps qs
   \<Longrightarrow> repr h (js_get ps k) (obj_prop qs k)"
  by (induction rule: list_all2_induct) (auto simp: js_get_def obj_prop_def)

lemma repr_post_prefix:
  assumes "prefix h h'" and "repr_post h p v"
  shows "repr_post h' p v"
proof -
  from assms(2) obtain a ps where v: "v = HRef a" and a: "a < length h"
    and ha: "h ! a = HObject ps"
    and u: "repr h (url p) (obj_prop ps ''url'')"
    and fm: "repr h (JObj (frontmatter p)) (obj_prop ps ''frontmatter'')"
    by (auto simp: repr_post_def split: hval.splits hobj.splits)
  from assms(1) u have "repr h' (url p) (obj_prop ps ''url'')"
    by (rule repr_prefix)
  moreover from assms(1) fm have "repr h' (JObj (frontmatter p)) (obj_prop ps ''frontmatter'')"
    by (rule repr_prefix)
  ultimately show ?thesis
    using assms(1) v a ha by (simp add: repr_post_def prefix_nth prefix_length)
qed

lemma heap_get_object:
  "a < length h \<Longrightarrow> h ! a = HObject ps \<Longrightarrow> heap_get h (HRef a) k = Inr (obj_prop ps k)"
  by (simp add: heap_get_def)

lemma item_callback_repr:
  assumes "repr_post h p v"
  shows "\<exists>r h'. item_callback v h = (Inr r, h') \<and> prefix h h'
           \<and> repr h' (item_val \<lparr>link = url p,
                  rss_feed_item.title = js_get (frontmatter p) ''title'',
                  pubDate = js_get (frontmatter p) ''publishedAt''\<rparr>) r"
proof -
  from assms obtain a ps where v: "v = HRef a" and a: "a < length h"
    and ha: "h ! a = HObject ps"
    and u: "repr h (url p) (obj_prop ps ''url'')"
    and fm: "repr h (JObj (frontmatter p)) (obj_prop ps ''frontmatter'')"
    by (auto simp: repr_post_def split: hval.splits hobj.splits)
  from fm obtain f fs where f: "obj_prop ps ''frontmatter'' = HRef f" and fl: "f < length h"
    and hf: "h ! f = HObject fs"
    and all: "list_all2 (\<lambda>(k, j) (k', w). k = k' \<and> repr h j w) (frontmatter p) fs"
    by (auto split: hval.splits hobj.splits)
  let ?ob = "HObject [(''link'', obj_prop ps ''url''), (''title'', obj_prop fs ''title''),
                (''pubDate'', obj_prop fs ''publishedAt'')]"
  have run: "item_callback v h = (Inr (HRef (length h)), h @ [?ob])"
    by (simp add: item_callback_def v heap_get_object [OF a ha] f
        heap_get_object [OF fl hf] heap_alloc_def)
  have p: "prefix h (h @ [?ob])"
    by simp
  from u p have 1: "repr (h @ [?ob]) (url p) (obj_prop ps ''url'')"
    by (rule repr_prefix [rotated])
  from repr_props [OF all] p
  have 2: "repr (h @ [?ob]) (js_get (frontmatter p) ''title'') (obj_prop fs ''title'')"
    by (rule repr_prefix [rotated])
  from repr_props [OF all] p
  have 3: "repr (h @ [?ob]) (js_get (frontmatter p) ''publishedAt'')
             (obj_prop fs ''publishedAt'')"
    by (rule repr_prefix [rotated])
  from 1 2 3 have "repr (h @ [?ob]) (item_val \<lparr>link = url p,
                  rss_feed_item.title = js_get (frontmatter p) ''title'',
                  pubDate = js_get (frontmatter p) ''publishedAt''\<rparr>) (HRef (length h))"
    by (simp add: item_val_def)
  with run p show ?thesis
    by blast
qed

lemma map_loop_repr:
  assumes "list_all2 (repr_post h0) ps vs"
  shows "prefix h0 h \<Longrightarrow>
         \<exists>rs h'. map_loop item_callback vs h = (Inr rs, h') \<and> prefix h h'
           \<and> list_all2 (repr h')
                (map (\<lambda>post. item_val \<lparr>link = url post,
                  rss_feed_item.title = js_get (frontmatter post) ''title'',
                  pubDate = js_get (frontmatter post) ''publishedAt''\<rparr>) ps) rs"
  using assms
proof (induction ps vs arbitrary: h rule: list_all2_induct)
  case Nil
  show ?case by simp
next
  case (Cons p ps v vs)
  from Cons.prems Cons.hyps(1) have "repr_post h p v"
    by (rule repr_post_prefix)
  from item_callback_repr [OF this] obtain r h1
    where c: "item_callback v h = (Inr r, h1)" and p1: "prefix h h1"
      and r1: "repr h1 (item_val \<lparr>link = url p,
                  rss_feed_item.title = js_get (frontmatter p) ''title'',
                  pubDate = js_get (frontmatter p) ''publishedAt''\<rparr>) r"
    by blast
  from Cons.prems p1 have "prefix h0 h1"
    by (rule prefix_order.trans)
  from Cons.IH [OF this] obtain rs h2
    where m: "map_loop item_callback vs h1 = (Inr rs, h2)" and p2: "prefix h1 h2"
      and r2: "list_all2 (repr h2)
                (map (\<lambda>post. item_val \<lparr>link = url post,
                  rss_feed_item.title = js_get (frontmatter post) ''title'',
                  pubDate = js_get (frontmatter post) ''publishedAt''\<rparr>) ps) rs"
    by blast
  from p1 p2 have "prefix h h2"
    by (rule prefix_order.trans)
  moreover from p2 r1 have "repr h2 (item_val \<lparr>link = url p,
                  rss_feed_item.title = js_get (frontmatter p) ''title'',
                  pubDate = js_get (frontmatter p) ''publishedAt''\<rparr>) r"
    by (rule repr_prefix)
  ultimately show ?case
    using c m r2 by simp
qed

lemma get_options_h_repr:
  assumes "repr_module h m b"
  shows "\<exists>r h'. get_options_h b h = (Inr r, h') \<and> prefix h h'
           \<and> repr h' (options_val (get_options m)) r"
proof -
  from assms obtain a vs where pb: "posts_h b = HRef a" and a: "a < length h"
    and ha: "h ! a = HArray vs" and all: "list_all2 (repr_post h) (posts m) vs"
    and s: "repr h (SITE (env m)) (SITE_h b)"
    by (auto simp: repr_module_def split: hval.splits hobj.splits)
  from map_loop_repr [OF all, of h] obtain rs h1
    where m: "map_loop item_callback vs h = (Inr rs, h1)" and p1: "prefix h h1"
      and r1: "list_all2 (repr h1) (map item_val (items (get_options m))) rs"
    by (auto simp: get_options_def comp_def)
  let ?h2 = "h1 @ [HArray rs]"
  let ?ob = "HObject
                     [(''title'', HStr ''Interactions.Rest Blog''),
                      (''description'', HStr ''A blog about Workers and web development''),
                      (''site'', SITE_h b),
                      (''items'', HRef (length h1))]"
  have run: "get_options_h b h = (Inr (HRef (Suc (length h1))), ?h2 @ [?ob])"
    by (simp add: get_options_h_def Array_map_def pb a ha m heap_alloc_def)
  have p2: "prefix h1 (?h2 @ [?ob])"
    by simp
  with p1 have p: "prefix h (?h2 @ [?ob])"
    by (rule prefix_order.trans)
  from r1 have "list_all2 (repr (?h2 @ [?ob])) (map item_val (items (get_options m))) rs"
    by (rule list.rel_mono_strong) (rule repr_prefix [OF p2])
  moreover from s p have "repr (?h2 @ [?ob]) (SITE (env m)) (SITE_h b)"
    by (rule repr_prefix [rotated])
  ultimately have "repr (?h2 @ [?ob]) (options_val (get_options m)) (HRef (Suc (length h1)))"
    by (simp add: options_val_def get_options_def nth_append)
  with run p show ?thesis
    by blast
qed


lemma repr_module_prefix:
  assumes "prefix h h'" and "repr_module h m b"
  shows "repr_module h' m b"
proof -
  from assms(2) obtain a vs where pb: "posts_h b = HRef a" and a: "a < length h"
    and ha: "h ! a = HArray vs" and all: "list_all2 (repr_post h) (posts m) vs"
    and s: "repr h (SITE (env m)) (SITE_h b)"
    by (auto simp: repr_module_def split: hval.splits hobj.splits)
  from all have "list_all2 (repr_post h') (posts m) vs"
    by (rule list.rel_mono_strong) (rule repr_post_prefix [OF assms(1)])
  moreover from assms(1) s have "repr h' (SITE (env m)) (SITE_h b)"
    by (rule repr_prefix)
  ultimately show ?thesis
    using assms(1) pb a ha by (simp add: repr_module_def prefix_nth prefix_length)
qed

text \<open>The failing branch is there: a module object without \<open>frontmatter\<close> makes \<open>get\<close> throw.\<close>

lemma no_frontmatter_TypeError:
  "get_options_h \<lparr>SITE_h = s, posts_h = HRef 1\<rparr> broken_heap = (Inl TypeError, broken_heap)"
  by (simp add: get_options_h_def Array_map_def item_callback_def heap_get_def obj_prop_def
      broken_heap_def)

subsection \<open>The concrete heap\<close>

lemma blog_heap_repr:
  "repr_module blog_heap (module_init blog_env blog_store_with_draft) blog_heap_module"
  by (simp add: repr_module_def blog_heap_module_def blog_heap_def module_init_def
      Object_values_def blog_env_def blog_store_with_draft_def blog_store_def
      repr_post_def obj_prop_def bootstrapping_d1_def esbuild_on_the_edge_def draft_post_def)

lemma blog_heap_run:
  "get_options_h blog_heap_module blog_heap =
     (Inr (HRef 14),
      blog_heap @
      [HObject [(''link'', HStr ''/blog/bootstrapping-d1''),
                (''title'', HStr ''Bootstrapping your D1 Database With D1-ORM''),
                (''pubDate'', HRef 0)],
       HObject [(''link'', HStr ''/blog/esbuild-on-the-edge''),
                (''title'', HStr ''Running Esbuild on the Edge''),
                (''pubDate'', HRef 3)],
       HObject [(''link'', HStr ''/blog/draft''),
                (''title'', HUndefined),
                (''pubDate'', HUndefined)],
       HArray [HRef 10, HRef 11, HRef 12],
       HObject [(''title'', HStr ''Interactions.Rest Blog''),
                (''description'', HStr ''A blog about Workers and web development''),
                (''site'', HStr ''https://blog.interactions.rest''),
                (''items'', HRef 13)]])"
  by (simp add: get_options_h_def Array_map_def item_callback_def heap_get_def obj_prop_def
      heap_alloc_def blog_heap_module_def blog_heap_def)


section \<open>The claims\<close>

subsection \<open>What the feed holds\<close>

text \<open>
  C1: \<open>get\<close> calls the serializer on options in which, for every post of the loaded
  content store, the feed item built for it (the item at the post's position) has the
  post's \<open>url\<close> as \<open>link\<close>, the value of the front-matter's \<open>title\<close> as \<open>title\<close>
  and the value of the front-matter's \<open>publishedAt\<close> as \<open>pubDate\<close>, each as it is.
\<close>

theorem item_copies_post_fields:
  assumes "i < length store"
  shows "fst (get rss (module_init e store)) = rss (get_options (module_init e store))
       \<and> link (items (get_options (module_init e store)) ! i) = url (snd (store ! i))
       \<and> rss_feed_item.title (items (get_options (module_init e store)) ! i)
           = js_get (frontmatter (snd (store ! i))) ''title''
       \<and> pubDate (items (get_options (module_init e store)) ! i)
           = js_get (frontmatter (snd (store ! i))) ''publishedAt''"
proof -
  from assms have "i < length (posts (module_init e store))"
    by (simp add: posts_module_init)
  then show ?thesis
    using assms by (simp add: nth_items posts_module_init get_result)
qed

theorem item_copies_post_fields_witness:
  "(1::nat) < length blog_store
   \<and> link (items (fst (get id (module_init blog_env blog_store))) ! 1)
       = JStr ''/blog/esbuild-on-the-edge''
   \<and> rss_feed_item.title (items (fst (get id (module_init blog_env blog_store))) ! 1)
       = JStr ''Running Esbuild on the Edge''
   \<and> pubDate (items (fst (get id (module_init blog_env blog_store))) ! 1)
       = JDate 1668643200000"
proof -
  have h: "(1::nat) < length blog_store"
    by (simp add: blog_store_def)
  show ?thesis
    using h item_copies_post_fields [OF h, of id blog_env]
    by (simp add: blog_store_def esbuild_on_the_edge_def js_get_def)
qed

text \<open>
  C2: \<open>get\<close> calls the serializer on options that hold as many items as content
  files were loaded; nothing is filtered out, merged or added.
\<close>

theorem items_count:
  "fst (get rss (module_init e store)) = rss (get_options (module_init e store))
   \<and> length (items (get_options (module_init e store))) = length store"
  by (simp add: get_result length_items posts_module_init)

text \<open>
  C3: \<open>get\<close> calls the serializer with options whose channel title and description
  are the two fixed strings and whose \<open>site\<close> is the configured \<open>SITE\<close> value as it is.
\<close>

theorem channel_fields:
  "fst (get rss (module_init e store)) = rss (get_options (module_init e store))
   \<and> rss_options.title (get_options (module_init e store)) = JStr ''Interactions.Rest Blog''
   \<and> description (get_options (module_init e store))
       = JStr ''A blog about Workers and web development''
   \<and> site (get_options (module_init e store)) = SITE e"
  by (simp add: get_def get_options_def env_module_init)

text \<open>
  C4: the items that \<open>get\<close> passes to the serializer come in the enumeration order of
  the loaded posts: the sequences of links, titles and dates of the feed are those of
  the posts, read off in the order of the loader's result. Nothing is sorted.
\<close>

theorem items_in_enumeration_order:
  "fst (get rss (module_init e store)) = rss (get_options (module_init e store))
   \<and> map link (items (get_options (module_init e store))) = map (\<lambda>(path, post). url post) store
   \<and> map rss_feed_item.title (items (get_options (module_init e store)))
       = map (\<lambda>(path, post). js_get (frontmatter post) ''title'') store
   \<and> map pubDate (items (get_options (module_init e store)))
       = map (\<lambda>(path, post). js_get (frontmatter post) ''publishedAt'') store"
  by (simp add: get_def get_options_def posts_module_init comp_def case_prod_beta)

subsection \<open>Repeated invocations\<close>

text \<open>
  C5: \<open>get\<close> is deterministic. The second of two consecutive invocations, on the
  bindings the first one left, returns what the first returned; so do two consecutive
  requests to a deployment whose content store and configuration nobody touched. On
  the heap, the second invocation runs on the heap the first one left and allocates
  its own objects; the two options objects are the same value, that of the value
  model, which has no input but the posts and \<open>SITE\<close>.
\<close>

theorem get_twice_same:
  "fst (get rss (snd (get rss m))) = fst (get rss m)
   \<and> fst (request rss (snd (request rss d))) = fst (request rss d)
   \<and> (repr_module h m b \<longrightarrow>
        (\<exists>r1 h1 r2 h2.
           get_options_h b h = (Inr r1, h1) \<and> get_options_h b h1 = (Inr r2, h2)
           \<and> repr h2 (options_val (get_options m)) r1
           \<and> repr h2 (options_val (get_options m)) r2))"
proof -
  have "\<exists>r1 h1 r2 h2.
           get_options_h b h = (Inr r1, h1) \<and> get_options_h b h1 = (Inr r2, h2)
           \<and> repr h2 (options_val (get_options m)) r1
           \<and> repr h2 (options_val (get_options m)) r2"
    if rm: "repr_module h m b"
  proof -
    from get_options_h_repr [OF rm] obtain r1 h1
      where g1: "get_options_h b h = (Inr r1, h1)" and p1: "prefix h h1"
        and v1: "repr h1 (options_val (get_options m)) r1"
      by blast
    from p1 rm have "repr_module h1 m b"
      by (rule repr_module_prefix)
    from get_options_h_repr [OF this] obtain r2 h2
      where g2: "get_options_h b h1 = (Inr r2, h2)" and p2: "prefix h1 h2"
        and v2: "repr h2 (options_val (get_options m)) r2"
      by blast
    from p2 v1 have "repr h2 (options_val (get_options m)) r1"
      by (rule repr_prefix)
    with g1 g2 v2 show ?thesis
      by blast
  qed
  then show ?thesis
    by (simp add: get_state request_state)
qed

theorem get_twice_same_witness:
  "repr_module blog_heap (module_init blog_env blog_store_with_draft) blog_heap_module
   \<and> (\<exists>r1 h1 r2 h2.
         get_options_h blog_heap_module blog_heap = (Inr r1, h1)
         \<and> get_options_h blog_heap_module h1 = (Inr r2, h2)
         \<and> repr h2 (options_val (get_options (module_init blog_env blog_store_with_draft))) r1
         \<and> repr h2 (options_val (get_options (module_init blog_env blog_store_with_draft))) r2)"
  using blog_heap_repr
    get_twice_same [of id "module_init blog_env blog_store_with_draft"
      "deploy blog_env blog_store_with_draft" blog_heap blog_heap_module]
  by blast

text \<open>
  C6, as the specification states it: each invocation reloads the content store, so the
  feed is built from the files present at request time. It is not: the module was
  evaluated on an empty content directory, two files were added since, and the feed of
  a request still has no item: it is not the feed of the files present at request time.
\<close>

theorem feed_not_reloaded_counterexample:
  "length (content_store (edit_store blog_store (deploy blog_env []))) = 2
   \<and> items (fst (request id (edit_store blog_store (deploy blog_env [])))) = []
   \<and> fst (request id (edit_store blog_store (deploy blog_env [])))
       \<noteq> get_options (module_init blog_env
            (content_store (edit_store blog_store (deploy blog_env []))))"
proof -
  have served: "items (fst (request id (edit_store blog_store (deploy blog_env [])))) = []"
    by (simp add: request_result edit_store_def deploy_def posts_module_init get_options_def)
  have reloaded: "length (items (get_options (module_init blog_env
            (content_store (edit_store blog_store (deploy blog_env [])))))) = 2"
    by (simp add: edit_store_def deploy_def length_items posts_module_init blog_store_def)
  from served reloaded
  have "fst (request id (edit_store blog_store (deploy blog_env [])))
       \<noteq> get_options (module_init blog_env
            (content_store (edit_store blog_store (deploy blog_env []))))"
    by auto
  with served show ?thesis
    by (simp add: edit_store_def deploy_def blog_store_def)
qed

text \<open>
  C6, amended: the content store is loaded once, when the module is evaluated
  (lines 3 and 4). Every invocation builds the feed from that module-level list of
  posts, whatever files are present at request time, and leaves the list as it was for
  the next invocation.
\<close>

theorem feed_built_from_module_posts:
  "fst (request rss (edit_store store' (deploy e store)))
     = rss (get_options (module_init e store))
   \<and> loaded (snd (request rss (edit_store store' (deploy e store)))) = module_init e store
   \<and> posts (module_init e store) = Object_values store"
  by (simp add: request_result request_state edit_store_def deploy_def
      posts_module_init Object_values_def)

subsection \<open>Missing fields and the empty store\<close>

text \<open>
  C7: a post whose front-matter has no \<open>title\<close> key, or no \<open>publishedAt\<close> key, still
  gets its feed item, at its own position and with its \<open>link\<close>; the field that is
  missing is \<open>undefined\<close> in the item. No error is raised: on a heap that holds the
  loaded posts, whatever keys their front-matter objects have, the run of \<open>get\<close>
  reaches the call of the serializer, with the options of the value model.
\<close>

theorem missing_field_is_undefined:
  assumes "i < length store"
  shows "(map_of (frontmatter (snd (store ! i))) ''title'' = None \<longrightarrow>
            rss_feed_item.title (items (get_options (module_init e store)) ! i) = JUndefined)
       \<and> (map_of (frontmatter (snd (store ! i))) ''publishedAt'' = None \<longrightarrow>
            pubDate (items (get_options (module_init e store)) ! i) = JUndefined)
       \<and> link (items (get_options (module_init e store)) ! i) = url (snd (store ! i))
       \<and> length (items (get_options (module_init e store))) = length store
       \<and> (repr_module h (module_init e store) b \<longrightarrow>
            (\<exists>r h'. get_options_h b h = (Inr r, h')
               \<and> get_h rss b h = rss r h'
               \<and> repr h' (options_val (get_options (module_init e store))) r))"
proof -
  from assms have "i < length (posts (module_init e store))"
    by (simp add: posts_module_init)
  then have "items (get_options (module_init e store)) ! i =
      \<lparr>link = url (snd (store ! i)),
       rss_feed_item.title = js_get (frontmatter (snd (store ! i))) ''title'',
       pubDate = js_get (frontmatter (snd (store ! i))) ''publishedAt''\<rparr>"
    using assms by (simp add: nth_items posts_module_init)
  then have fields:
    "(map_of (frontmatter (snd (store ! i))) ''title'' = None \<longrightarrow>
            rss_feed_item.title (items (get_options (module_init e store)) ! i) = JUndefined)
       \<and> (map_of (frontmatter (snd (store ! i))) ''publishedAt'' = None \<longrightarrow>
            pubDate (items (get_options (module_init e store)) ! i) = JUndefined)
       \<and> link (items (get_options (module_init e store)) ! i) = url (snd (store ! i))
       \<and> length (items (get_options (module_init e store))) = length store"
    by (simp add: js_get_def length_items posts_module_init)
  have "\<exists>r h'. get_options_h b h = (Inr r, h')
               \<and> get_h rss b h = rss r h'
               \<and> repr h' (options_val (get_options (module_init e store))) r"
    if rm: "repr_module h (module_init e store) b"
  proof -
    from get_options_h_repr [OF rm] obtain r h'
      where g: "get_options_h b h = (Inr r, h')"
        and v: "repr h' (options_val (get_options (module_init e store))) r"
      by blast
    from g have "get_h rss b h = rss r h'"
      by (simp add: get_h_def)
    with g v show ?thesis
      by blast
  qed
  with fields show ?thesis
    by blast
qed

theorem missing_field_is_undefined_witness:
  "(2::nat) < length blog_store_with_draft
   \<and> map_of (frontmatter (snd (blog_store_with_draft ! 2))) ''title'' = None
   \<and> map_of (frontmatter (snd (blog_store_with_draft ! 2))) ''publishedAt'' = None
   \<and> rss_feed_item.title (items (get_options (module_init blog_env blog_store_with_draft)) ! 2)
       = JUndefined
   \<and> pubDate (items (get_options (module_init blog_env blog_store_with_draft)) ! 2)
       = JUndefined
   \<and> link (items (get_options (module_init blog_env blog_store_with_draft)) ! 2)
       = JStr ''/blog/draft''
   \<and> length (items (get_options (module_init blog_env blog_store_with_draft))) = 3
   \<and> repr_module blog_heap (module_init blog_env blog_store_with_draft) blog_heap_module
   \<and> (\<exists>r h'. get_options_h blog_heap_module blog_heap = (Inr r, h')
         \<and> get_h rss_echo blog_heap_module blog_heap = (Inr r, h')
         \<and> repr h' (options_val (get_options (module_init blog_env blog_store_with_draft))) r)"
proof -
  have h: "(2::nat) < length blog_store_with_draft"
    by (simp add: blog_store_with_draft_def blog_store_def)
  have n: "snd (blog_store_with_draft ! 2) = draft_post"
    by (simp add: blog_store_with_draft_def blog_store_def)
  have t: "map_of (frontmatter draft_post) ''title'' = None"
    by (simp add: draft_post_def)
  have p: "map_of (frontmatter draft_post) ''publishedAt'' = None"
    by (simp add: draft_post_def)
  have u: "url draft_post = JStr ''/blog/draft''"
    by (simp add: draft_post_def)
  have l: "length blog_store_with_draft = 3"
    by (simp add: blog_store_with_draft_def blog_store_def)
  from missing_field_is_undefined
    [OF h, of blog_env blog_heap blog_heap_module rss_echo]
  show ?thesis
    using h blog_heap_repr by (simp add: n t p u l rss_echo_def)
qed

text \<open>
  C8: on a content store without files the module has no posts, and \<open>get\<close> calls the
  serializer with the two fixed strings, the configured site and no item. On the heap:
  when \<open>posts\<close> is an empty array, \<open>get\<close> does not throw; it allocates an empty array of
  items and the options object, and calls the serializer on it.
\<close>

theorem empty_store_empty_feed:
  "posts (module_init e []) = []
   \<and> items (get_options (module_init e [])) = []
   \<and> fst (get rss (module_init e []))
       = rss \<lparr>rss_options.title = JStr ''Interactions.Rest Blog'',
              description = JStr ''A blog about Workers and web development'',
              site = SITE e, items = []\<rparr>
   \<and> (posts_h b = HRef a \<and> a < length h \<and> h ! a = HArray [] \<longrightarrow>
        get_h rss_h b h
          = rss_h (HRef (Suc (length h)))
              (h @ [HArray [],
                    HObject [(''title'', HStr ''Interactions.Rest Blog''),
                             (''description'', HStr ''A blog about Workers and web development''),
                             (''site'', SITE_h b),
                             (''items'', HRef (length h))]]))"
  by (simp add: get_def get_options_def posts_module_init env_module_init
      get_h_def get_options_h_def Array_map_def heap_alloc_def)

theorem empty_store_empty_feed_witness:
  "posts_h empty_heap_module = HRef 1 \<and> 1 < length empty_heap \<and> empty_heap ! 1 = HArray []
   \<and> get_h rss_echo empty_heap_module empty_heap
       = (Inr (HRef 3),
          [HObject [], HArray [], HArray [],
           HObject [(''title'', HStr ''Interactions.Rest Blog''),
                    (''description'', HStr ''A blog about Workers and web development''),
                    (''site'', HStr ''https://blog.interactions.rest''),
                    (''items'', HRef 2)]])"
proof -
  have h: "posts_h empty_heap_module = HRef 1 \<and> 1 < length empty_heap
             \<and> empty_heap ! 1 = HArray []"
    by (simp add: empty_heap_module_def empty_heap_def)
  from empty_store_empty_feed [of blog_env id empty_heap_module 1 empty_heap rss_echo] h
  have "get_h rss_echo empty_heap_module empty_heap
          = rss_echo (HRef (Suc (length empty_heap)))
              (empty_heap @ [HArray [],
                    HObject [(''title'', HStr ''Interactions.Rest Blog''),
                             (''description'', HStr ''A blog about Workers and web development''),
                             (''site'', SITE_h empty_heap_module),
                             (''items'', HRef (length empty_heap))]])"
    by blast
  then show ?thesis
    using h by (simp add: rss_echo_def empty_heap_def empty_heap_module_def)
qed

subsection \<open>What the feed does not depend on\<close>

text \<open>
  C9: two content stores whose posts agree, position by position, on \<open>url\<close> and on what
  the front-matter gives for \<open>title\<close> and \<open>publishedAt\<close> yield the same options and the
  same result of \<open>get\<close>, however they differ in the rest of the front-matter (image,
  category, layout), in the body and in the file names.
\<close>

theorem feed_ignores_other_fields:
  assumes "list_all2 (\<lambda>(path, p) (path', q). url p = url q
              \<and> js_get (frontmatter p) ''title'' = js_get (frontmatter q) ''title''
              \<and> js_get (frontmatter p) ''publishedAt'' = js_get (frontmatter q) ''publishedAt'')
            store store'"
  shows "get_options (module_init e store) = get_options (module_init e store')
       \<and> fst (get rss (module_init e store)) = fst (get rss (module_init e store'))"
proof -
  from assms have "list_all2 (\<lambda>p q. url p = url q
              \<and> js_get (frontmatter p) ''title'' = js_get (frontmatter q) ''title''
              \<and> js_get (frontmatter p) ''publishedAt'' = js_get (frontmatter q) ''publishedAt'')
            (map snd store) (map snd store')"
    by (simp add: list_all2_map1 list_all2_map2 split_def)
  then have "items (get_options (module_init e store))
           = items (get_options (module_init e store'))"
    unfolding module_init_def Object_values_def Let_def by (rule items_cong)
  then have "get_options (module_init e store) = get_options (module_init e store')"
    by (simp add: get_options_def env_module_init)
  then show ?thesis
    by (simp add: get_result)
qed

theorem feed_ignores_other_fields_witness:
  "blog_store \<noteq> blog_store_restyled
   \<and> map (rawContent \<circ> snd) blog_store \<noteq> map (rawContent \<circ> snd) blog_store_restyled
   \<and> map (\<lambda>(path, p). js_get (frontmatter p) ''category'') blog_store
       \<noteq> map (\<lambda>(path, p). js_get (frontmatter p) ''category'') blog_store_restyled
   \<and> get_options (module_init blog_env blog_store)
       = get_options (module_init blog_env blog_store_restyled)"
proof -
  have h: "list_all2 (\<lambda>(path, p) (path', q). url p = url q
              \<and> js_get (frontmatter p) ''title'' = js_get (frontmatter q) ''title''
              \<and> js_get (frontmatter p) ''publishedAt'' = js_get (frontmatter q) ''publishedAt'')
            blog_store blog_store_restyled"
    by (simp add: blog_store_def blog_store_restyled_def bootstrapping_d1_def
        esbuild_on_the_edge_def js_get_def)
  have d: "map (rawContent \<circ> snd) blog_store \<noteq> map (rawContent \<circ> snd) blog_store_restyled"
    by (simp add: blog_store_def blog_store_restyled_def bootstrapping_d1_def)
  have c: "map (\<lambda>(path, p). js_get (frontmatter p) ''category'') blog_store
       \<noteq> map (\<lambda>(path, p). js_get (frontmatter p) ''category'') blog_store_restyled"
    by (simp add: blog_store_def blog_store_restyled_def bootstrapping_d1_def js_get_def)
  from d have "blog_store \<noteq> blog_store_restyled"
    by auto
  then show ?thesis
    using feed_ignores_other_fields [OF h, of blog_env id] d c by simp
qed

subsection \<open>What an invocation leaves behind\<close>

text \<open>
  C10: \<open>get\<close> has no effect on the module's own state. In the value model the bindings
  after an invocation are the bindings before. On the heap, every object that existed
  before the invocation (the \<open>posts\<close> array, each post, each front-matter) is, at the
  moment the serializer is called or an exception leaves \<open>get\<close>, what it was: the old
  heap is an initial segment of the new one. The options object is new. And if the
  serializer writes to no existing object either, neither does \<open>get\<close> as a whole.
\<close>

theorem get_leaves_state_unchanged:
  "snd (get rss m) = m
   \<and> prefix h (snd (get_options_h b h))
   \<and> (\<forall>r h'. get_options_h b h = (Inr r, h') \<longrightarrow>
         (\<exists>a. r = HRef a \<and> length h \<le> a \<and> a < length h'))
   \<and> ((\<forall>opts h1. prefix h1 (snd (rss_h opts h1))) \<longrightarrow> prefix h (snd (get_h rss_h b h)))"
  by (simp add: get_state get_options_h_prefix get_options_h_fresh get_h_prefix)

theorem get_leaves_state_unchanged_witness:
  "(\<forall>opts h1. prefix h1 (snd (rss_echo opts h1)))
   \<and> prefix blog_heap (snd (get_h rss_echo blog_heap_module blog_heap))
   \<and> fst (get_options_h blog_heap_module blog_heap) = Inr (HRef 14)
   \<and> length blog_heap = 10
   \<and> length (snd (get_options_h blog_heap_module blog_heap)) = 15"
proof -
  have e: "\<forall>opts h1. prefix h1 (snd (rss_echo opts h1))"
    by (simp add: rss_echo_def)
  from get_leaves_state_unchanged [of id "module_init blog_env blog_store" blog_heap
      blog_heap_module rss_echo] e
  have "prefix blog_heap (snd (get_h rss_echo blog_heap_module blog_heap))"
    by blast
  moreover have "length blog_heap = 10"
    by (simp add: blog_heap_def)
  ultimately show ?thesis
    using e by (simp add: blog_heap_run)
qed

end
